theory Spec2Isabelle
  imports Main "HOL-Library.Sublist"
begin

section \<open>JavaScript values as the frontend sees them\<close>

text \<open>
  The React frontend handles JSON values decoded from HTTP responses and carried in the
  router's navigation state. Objects are association lists (the first binding of a key
  is the one read). Numbers are integers; the strings of these values (field names,
  messages, identifiers) are lists of 8-bit code units. The text a user types is
  modelled apart, as the UTF-16 code units JavaScript sees.
\<close>

datatype jsval =
    JUndefined
  | JNull
  | JBool bool
  | JNum int
  | JStr string
  | JArr "jsval list"
  | JObj "(string \<times> jsval) list"

text \<open>
  What a JavaScript expression can throw here: a \<open>TypeError\<close> (reading a property of
  \<open>undefined\<close> or \<open>null\<close>, calling something that is not a function), or an
  \<open>Error\<close> object built with \<open>new Error(message)\<close>. \<open>Unmodelled\<close> marks a coercion the
  model does not evaluate (a relational comparison of a string, array or object with a
  number).
\<close>

datatype js_error = TypeError string | ErrorObj string | Unmodelled

definition bind_js :: "js_error + 'a \<Rightarrow> ('a \<Rightarrow> js_error + 'b) \<Rightarrow> js_error + 'b" where
  "bind_js m f = (case m of Inl e \<Rightarrow> Inl e | Inr v \<Rightarrow> f v)"

text \<open>Truthiness, as \<open>!x\<close>, \<open>x ? a : b\<close> and \<open>x && y\<close> use it.\<close>

fun js_truthy :: "jsval \<Rightarrow> bool" where
  "js_truthy JUndefined = False"
| "js_truthy JNull = False"
| "js_truthy (JBool b) = b"
| "js_truthy (JNum n) = (n \<noteq> 0)"
| "js_truthy (JStr s) = (s \<noteq> [])"
| "js_truthy (JArr xs) = True"
| "js_truthy (JObj kvs) = True"

fun js_nullish :: "jsval \<Rightarrow> bool" where
  "js_nullish JUndefined = True"
| "js_nullish JNull = True"
| "js_nullish v = False"

text \<open>
  \<open>v.k\<close>, for the property names the components read (field names of the response and
  \<open>length\<close>; no index and no method name): a \<open>TypeError\<close> on \<open>undefined\<close> and \<open>null\<close>; the
  bound value (or \<open>undefined\<close>) on an object; \<open>length\<close> on arrays and strings; \<open>undefined\<close>
  otherwise.
\<close>

definition obj_field :: "(string \<times> jsval) list \<Rightarrow> string \<Rightarrow> jsval" where
  "obj_field kvs k = (case map_of kvs k of None \<Rightarrow> JUndefined | Some v \<Rightarrow> v)"

fun js_get :: "jsval \<Rightarrow> string \<Rightarrow> js_error + jsval" where
  "js_get JUndefined k = Inl (TypeError k)"
| "js_get JNull k = Inl (TypeError k)"
| "js_get (JObj kvs) k = Inr (obj_field kvs k)"
| "js_get (JArr xs) k = Inr (if k = ''length'' then JNum (int (length xs)) else JUndefined)"
| "js_get (JStr s) k = Inr (if k = ''length'' then JNum (int (length s)) else JUndefined)"
| "js_get (JBool b) k = Inr JUndefined"
| "js_get (JNum n) k = Inr JUndefined"

text \<open>\<open>v?.k\<close>: \<open>undefined\<close> when \<open>v\<close> is \<open>undefined\<close> or \<open>null\<close>, \<open>v.k\<close> otherwise.\<close>

definition js_opt_get :: "jsval \<Rightarrow> string \<Rightarrow> js_error + jsval" where
  "js_opt_get v k = (if js_nullish v then Inr JUndefined else js_get v k)"

text \<open>\<open>v > 0\<close>.\<close>

fun js_gt_zero :: "jsval \<Rightarrow> js_error + bool" where
  "js_gt_zero JUndefined = Inr False"
| "js_gt_zero JNull = Inr False"
| "js_gt_zero (JBool b) = Inr b"
| "js_gt_zero (JNum n) = Inr (0 < n)"
| "js_gt_zero (JStr s) = Inl Unmodelled"
| "js_gt_zero (JArr xs) = Inl Unmodelled"
| "js_gt_zero (JObj kvs) = Inl Unmodelled"

text \<open>
  \<open>v.map((err, i) => <li key={i}>{err}</li>)\<close>: the list of children for an array; any
  other JSON value has no callable \<open>map\<close>.
\<close>

fun js_map_items :: "jsval \<Rightarrow> js_error + jsval list" where
  "js_map_items (JArr xs) = Inr xs"
| "js_map_items JUndefined = Inl (TypeError ''map'')"
| "js_map_items JNull = Inl (TypeError ''map'')"
| "js_map_items v = Inl (TypeError ''map is not a function'')"

text \<open>String conversion, as a template literal \<open>`${v}`\<close> performs it.\<close>

definition digit_char :: "nat \<Rightarrow> char" where
  "digit_char d = ''0123456789'' ! (d mod 10)"

fun string_of_nat :: "nat \<Rightarrow> string" where
  "string_of_nat n = (if 10 \<le> n then string_of_nat (n div 10) else []) @ [digit_char n]"

definition string_of_int :: "int \<Rightarrow> string" where
  "string_of_int i = (if i < 0 then CHR ''-'' # string_of_nat (nat (- i)) else string_of_nat (nat i))"

fun join_with :: "string \<Rightarrow> string list \<Rightarrow> string" where
  "join_with sep [] = []"
| "join_with sep [x] = x"
| "join_with sep (x # y # ys) = x @ sep @ join_with sep (y # ys)"

fun js_to_string :: "jsval \<Rightarrow> string" where
  "js_to_string JUndefined = ''undefined''"
| "js_to_string JNull = ''null''"
| "js_to_string (JBool b) = (if b then ''true'' else ''false'')"
| "js_to_string (JNum n) = string_of_int n"
| "js_to_string (JStr s) = s"
| "js_to_string (JArr xs) =
     join_with '','' (map (\<lambda>x. if js_nullish x then [] else js_to_string x) xs)"
| "js_to_string (JObj kvs) = ''[object Object]''"

text \<open>
  A JavaScript string as its UTF-16 code units, and the text of an ASCII literal in that
  form.
\<close>

type_synonym utf16 = "nat list"

definition ascii :: "string \<Rightarrow> utf16" where
  "ascii s = map of_char s"

text \<open>
  \<open>String.prototype.trim\<close> removes white space and line terminators from both ends:
  TAB, LF, VT, FF, CR, SPACE, NBSP (U+00A0), U+1680, U+2000 to U+200A, U+2028, U+2029,
  U+202F, U+205F, U+3000 and the byte order mark U+FEFF. Each is one code unit.
\<close>

definition js_space :: "nat \<Rightarrow> bool" where
  "js_space u =
     (u \<in> {0x09, 0x0A, 0x0B, 0x0C, 0x0D, 0x20, 0xA0, 0x1680, 0x2028, 0x2029, 0x202F, 0x205F,
            0x3000, 0xFEFF} \<or>
      (0x2000 \<le> u \<and> u \<le> 0x200A))"

definition js_trim :: "utf16 \<Rightarrow> utf16" where
  "js_trim s = rev (dropWhile js_space (rev (dropWhile js_space s)))"

text \<open>The settled state of a promise that is awaited.\<close>

datatype ('e, 'a) settled = Fulfilled 'a | Rejected 'e


section \<open>services/api.js: apiService\<close>

text \<open>
  \<open>api\<close> is an axios instance. \<open>api.post(url, data)\<close> settles to a response object, whose
  \<open>data\<close> field holds the decoded body, or rejects with an error object, whose \<open>message\<close>
  the catch block reads. The network is the parameter \<open>post\<close>.
\<close>

record axios_response =
  data :: jsval
  status :: int

record axios_error =
  message :: jsval

type_synonym axios_post = "string \<Rightarrow> jsval \<Rightarrow> (axios_error, axios_response) settled"

definition submitSchema :: "axios_post \<Rightarrow> jsval \<Rightarrow> js_error + jsval" where
  "submitSchema post schemaData =
     (case post ''/submit-schema'' schemaData of
        Fulfilled response \<Rightarrow> Inr (data response)
      | Rejected error \<Rightarrow>
          Inl (ErrorObj (''Failed to submit schema: '' @ js_to_string (message error))))"

definition generateSQL :: "axios_post \<Rightarrow> jsval \<Rightarrow> js_error + jsval" where
  "generateSQL post queryData =
     (case post ''/generate-sql'' queryData of
        Fulfilled response \<Rightarrow> Inr (data response)
      | Rejected error \<Rightarrow>
          Inl (ErrorObj (''Failed to generate SQL: '' @ js_to_string (message error))))"


section \<open>components/QueryInput: handleGenerateSQL\<close>

text \<open>
  The component state the handler reads and writes, and the effects it has on the
  outside, in the order they happen. The query is the text of the textarea. \<open>fetch\<close> is
  the parameter \<open>net\<close>: called with the URL and the request body (the object
  \<open>{database_id, user_query}\<close>, before \<open>JSON.stringify\<close>), it settles to a response with
  its \<open>ok\<close> flag and the settled result of \<open>response.json()\<close>, or rejects.
\<close>

record query_input =
  query :: utf16
  isGenerating :: bool
  databaseId :: jsval

record generate_request =
  database_id :: jsval
  user_query :: utf16

datatype effect =
    SetIsGenerating bool
  | Alert string
  | ConsoleLog string
  | ConsoleError string
  | HttpPost string generate_request
  | Navigate string jsval

record fetch_response =
  ok :: bool
  json :: "(jsval, jsval) settled"

type_synonym fetch = "string \<Rightarrow> generate_request \<Rightarrow> (jsval, fetch_response) settled"

text \<open>
  The body of the \<open>try\<close> block: the effects so far, and \<open>Inl\<close> of the thrown value when an
  awaited promise rejected.
\<close>

definition generate_try :: "fetch \<Rightarrow> query_input \<Rightarrow> effect list \<times> (jsval + unit)" where
  "generate_try net s =
     (if \<not> js_truthy (databaseId s)
      then ([Alert ''No Database ID found. Please upload a schema first.''], Inr ())
      else
        let url = ''http://localhost:8000/api/generate-sql'';
            body = \<lparr>database_id = databaseId s, user_query = query s\<rparr>;
            sent = [ConsoleLog ''Generating SQL for query:'', HttpPost url body]
        in case net url body of
             Rejected err \<Rightarrow> (sent, Inl err)
           | Fulfilled response \<Rightarrow>
               if ok response
               then (case json response of
                       Rejected err \<Rightarrow> (sent, Inl err)
                     | Fulfilled d \<Rightarrow>
                         (sent @ [Navigate ''/results''
                                    (JObj [(''state'',
                                      JObj [(''response'', d), (''database_id'', databaseId s)])])],
                          Inr ()))
               else (sent @ [ConsoleError ''Failed to generate SQL''], Inr ()))"

text \<open>
  The handler: the early return when \<open>query.trim()\<close> is the empty string (the only falsy
  string), then \<open>setIsGenerating(true)\<close>,
  the \<open>try\<close> block, the \<open>catch\<close> block, and the \<open>finally\<close> block that always runs.
\<close>

definition handleGenerateSQL :: "fetch \<Rightarrow> query_input \<Rightarrow> query_input \<times> effect list" where
  "handleGenerateSQL net s =
     (if js_trim (query s) = [] then (s, [])
      else
        let s1 = s\<lparr>isGenerating := True\<rparr>;
            (effs, r) = generate_try net s1;
            caught = (case r of Inl err \<Rightarrow> [ConsoleError ''Error generating SQL:''] | Inr u \<Rightarrow> [])
        in (s1\<lparr>isGenerating := False\<rparr>,
            [SetIsGenerating True] @ effs @ caught @ [SetIsGenerating False]))"

fun is_request :: "effect \<Rightarrow> bool" where
  "is_request (HttpPost url body) = True"
| "is_request e = False"

fun is_navigation :: "effect \<Rightarrow> bool" where
  "is_navigation (Navigate path opts) = True"
| "is_navigation e = False"



section \<open>components/OutputDisplay\<close>

text \<open>
  What a render returns: the fallback view with the navigation options of its
  "Go to Query Page" button, or the results page with the original query shown in its
  header and the content of the active tab. A view holds the values the JSX reads, not
  their typesetting.
\<close>

datatype stage_box = StageBox bool "jsval list option"
  \<comment> \<open>a stage card: green with a check mark iff the flag holds; the listed errors, if the list is shown\<close>

datatype tab_content =
    NoTab
  | SqlTab jsval
  | ExplanationCards jsval jsval jsval jsval
  | ExplanationText jsval
  | ValidationCards stage_box stage_box stage_box bool
  | ValidationJson jsval "jsval list option"

datatype view =
    NoQueryResultsFound "jsval option"
  | QueryResults jsval tab_content

text \<open>
  \<open>x?.errors?.length > 0 && x.errors.map(...)\<close>, with \<open>x\<close> already evaluated: the list
  items when the guard holds, nothing otherwise.
\<close>

definition error_items :: "jsval \<Rightarrow> js_error + jsval list option" where
  "error_items x =
     bind_js (js_opt_get x ''errors'') (\<lambda>errs.
     bind_js (js_opt_get errs ''length'') (\<lambda>len.
     bind_js (js_gt_zero len) (\<lambda>shown.
       if shown
       then bind_js (js_get x ''errors'') (\<lambda>errs'.
            bind_js (js_map_items errs') (\<lambda>items. Inr (Some items)))
       else Inr None)))"

text \<open>
  One card of the validation tab of OutputDisplay.jsx, for the stage named \<open>k\<close>:
  \<open>responseData.validation_status.k?.valid\<close> picks the colour and the icon, and the
  errors are listed under it.
\<close>

definition stage_card :: "jsval \<Rightarrow> string \<Rightarrow> js_error + stage_box" where
  "stage_card responseData k =
     bind_js (js_get responseData ''validation_status'') (\<lambda>vs.
     bind_js (js_get vs k) (\<lambda>stage.
     bind_js (js_opt_get stage ''valid'') (\<lambda>v.
     bind_js (error_items stage) (\<lambda>items.
       Inr (StageBox (js_truthy v) items)))))"

definition validation_tab :: "jsval \<Rightarrow> js_error + tab_content" where
  "validation_tab responseData =
     bind_js (stage_card responseData ''syntactic'') (\<lambda>syn.
     bind_js (stage_card responseData ''semantic'') (\<lambda>sem.
     bind_js (stage_card responseData ''logical'') (\<lambda>lgc.
     bind_js (js_get responseData ''validation_status'') (\<lambda>vs.
     bind_js (js_get vs ''overall_valid'') (\<lambda>ov.
       Inr (ValidationCards syn sem lgc (js_truthy ov)))))))"

definition explanation_tab :: "jsval \<Rightarrow> js_error + tab_content" where
  "explanation_tab responseData =
     bind_js (js_get responseData ''trc_explanation'') (\<lambda>te.
     bind_js (js_get te ''trc'') (\<lambda>trc.
     bind_js (js_get te ''description'') (\<lambda>description.
     bind_js (js_get te ''query'') (\<lambda>q.
     bind_js (js_get te ''sql'') (\<lambda>sql.
       Inr (ExplanationCards trc description q sql))))))"

text \<open>
  The component of OutputDisplay.jsx. \<open>loc_state\<close> is \<open>location.state\<close>, \<open>activeTab\<close> the
  tab state, and \<open>format\<close> the formatter of the sql-formatter package, which may throw.
\<close>

definition OutputDisplay ::
    "(jsval \<Rightarrow> js_error + string) \<Rightarrow> jsval \<Rightarrow> string \<Rightarrow> js_error + view" where
  "OutputDisplay format loc_state activeTab =
     bind_js (js_opt_get loc_state ''response'') (\<lambda>responseData.
     bind_js (js_opt_get loc_state ''database_id'') (\<lambda>databaseId.
       if \<not> js_truthy responseData
       then Inr (NoQueryResultsFound
              (Some (JObj [(''state'', JObj [(''database_id'', databaseId)])])))
       else
         bind_js (js_get responseData ''sql_query'') (\<lambda>sq.
         bind_js (if js_truthy sq then format sq else Inr []) (\<lambda>formattedSql.
         bind_js (js_get responseData ''original_query'') (\<lambda>oq.
         bind_js (if activeTab = ''sql'' then Inr (SqlTab (JStr formattedSql))
                  else if activeTab = ''explanation'' then explanation_tab responseData
                  else if activeTab = ''validation'' then validation_tab responseData
                  else Inr NoTab) (\<lambda>content.
           Inr (QueryResults oq content)))))))"

text \<open>
  The earlier revision of the component (the unnamed source file part 005): no
  formatter, the explanation shown as one text, the validation status printed with
  \<open>JSON.stringify\<close> and the response's own \<open>errors\<close> listed.
\<close>

definition OutputDisplay_part_005 :: "jsval \<Rightarrow> string \<Rightarrow> js_error + view" where
  "OutputDisplay_part_005 loc_state activeTab =
     bind_js (js_opt_get loc_state ''response'') (\<lambda>responseData.
       if \<not> js_truthy responseData
       then Inr (NoQueryResultsFound None)
       else
         bind_js (js_get responseData ''original_query'') (\<lambda>oq.
         bind_js (if activeTab = ''sql''
                  then bind_js (js_get responseData ''sql_query'') (\<lambda>sq. Inr (SqlTab sq))
                  else if activeTab = ''explanation''
                  then bind_js (js_get responseData ''trc_explanation'') (\<lambda>te.
                         Inr (ExplanationText te))
                  else if activeTab = ''validation''
                  then bind_js (js_get responseData ''validation_status'') (\<lambda>vs.
                       bind_js (error_items responseData) (\<lambda>items.
                         Inr (ValidationJson vs items)))
                  else Inr NoTab) (\<lambda>content.
           Inr (QueryResults oq content))))"


section \<open>The Gauntlet's result record\<close>

text \<open>
  Modelled from the spec: the record the validation core hands to its caller
  (section 6), which no source file declares:
  \<open>{ overall_valid, syntactic: {valid, errors[]}, semantic: {valid, errors[]},
  logical: {valid, errors[]}, trc: {formula_text, natural_language} | null }\<close>,
  and its encoding as a JSON value under the same field names and nesting.
\<close>

record stage_result =
  valid :: bool
  errors :: "string list"

record trc_text =
  formula_text :: string
  natural_language :: string

record gauntlet_report =
  overall_valid :: bool
  syntactic :: stage_result
  semantic :: stage_result
  logical :: stage_result
  trc :: "trc_text option"





text \<open>Concrete inputs the examples below are evaluated at.\<close>

definition post_up :: axios_post where
  "post_up url body = Fulfilled \<lparr>data = JObj [(''echo'', body)], status = 200\<rparr>"

definition post_down :: axios_post where
  "post_down url body = Rejected \<lparr>message = JStr ''Network Error''\<rparr>"

definition fetch_up :: fetch where
  "fetch_up url body =
     Fulfilled \<lparr>ok = True, json = Fulfilled (JObj [(''sql_query'', JStr ''SELECT 1'')])\<rparr>"

definition fetch_down :: fetch where
  "fetch_down url body = Rejected (JStr ''Failed to fetch'')"






section \<open>The Validation Gauntlet\<close>

subsection \<open>The validation core: data model\<close>

text \<open>
  Modelled from the spec: the Schema Graph (section 3). The backend that builds it
  (backend/kg_store.py) and the validation core (backend/validation_gauntlet.py,
  backend/trc_handler.py) are named by the repository's README files but are not among
  the source files; every definition from here to the properties is written from the
  spec's description of them.
\<close>

datatype col_type = INTEGER | DECIMAL | VARCHAR | DATE | BOOLEAN

record column =
  col_name :: string
  col_type :: col_type
  nullable :: bool

record foreign_key =
  fk_column :: string
  referencedTable :: string
  referencedColumn :: string

record table =
  tbl_name :: string
  tbl_columns :: "column list"
  primaryKey :: "string list"
  foreignKeys :: "foreign_key list"

type_synonym schema_graph = "table list"

text \<open>
  Modelled from the spec: the SQL AST (section 3). A \<open>Select\<close> keeps the name of every
  unsupported clause found after it (\<open>GROUP BY\<close>, \<open>HAVING\<close>, \<open>ORDER BY\<close>, \<open>LIMIT\<close>); a
  \<open>Write\<close> keeps its kind. A literal keeps its source text, tagged with the kind of
  literal it is. Source positions are kept on the tokens and in the syntax errors; the
  nodes of the AST do not repeat them.
\<close>

datatype cmp_op = Eq | Lt | Gt | Le | Ge | Ne

datatype literal_value = IntLit string | DecLit string | StrLit string | BoolLit bool

datatype expr =
    ColumnRef "string option" string
  | Literal_expr literal_value
  | Aggregate string expr

datatype predicate =
    Comparison expr cmp_op expr
  | And_pred predicate predicate
  | Or_pred predicate predicate
  | Not_pred predicate

record table_ref =
  ref_table :: string
  ref_alias :: "string option"

datatype join_kind = INNER | LEFT | RIGHT | FULL

record join =
  join_left :: table_ref
  join_right :: table_ref
  join_on :: predicate
  join_kind :: join_kind

datatype write_kind = INSERT | UPDATE | DELETE | DROP | ALTER | TRUNCATE

record select_stmt =
  projections :: "expr list"
  from_refs :: "table_ref list"
  joins :: "join list"
  where_pred :: "predicate option"
  unsupported :: "string list"

datatype statement = Select select_stmt | Write write_kind


subsection \<open>SQL Parser\<close>

text \<open>
  Modelled from the spec: the parser's error (section 4.1: position, expected, found;
  section 5: "too complex"), and the tokens of the SQL text, each with the offset it
  starts at.
\<close>

datatype syntax_error = SyntaxError nat string string | TooComplex

datatype token = TWord string | TNum string | TStr string | TSym string | TBad string | TEnd

text \<open>
  Modelled from the spec: character classes of the SQL text; keywords and names are
  compared without regard to case.
\<close>

definition is_blank :: "char \<Rightarrow> bool" where
  "is_blank c = (of_char c \<in> {9, 10, 11, 12, 13, 32 :: nat})"

definition is_digit :: "char \<Rightarrow> bool" where
  "is_digit c = (48 \<le> (of_char c :: nat) \<and> (of_char c :: nat) \<le> 57)"

definition is_word_start :: "char \<Rightarrow> bool" where
  "is_word_start c =
     (let n = (of_char c :: nat) in (65 \<le> n \<and> n \<le> 90) \<or> (97 \<le> n \<and> n \<le> 122) \<or> n = 95)"

definition is_word_char :: "char \<Rightarrow> bool" where
  "is_word_char c = (is_word_start c \<or> is_digit c)"

definition is_num_char :: "char \<Rightarrow> bool" where
  "is_num_char c = (is_digit c \<or> c = CHR ''.'')"

definition to_upper :: "char \<Rightarrow> char" where
  "to_upper c = (let n = (of_char c :: nat) in if 97 \<le> n \<and> n \<le> 122 then char_of (n - 32) else c)"

definition upper :: "string \<Rightarrow> string" where
  "upper s = map to_upper s"

definition quote :: char where
  "quote = CHR 0x27"

text \<open>
  Modelled from the spec: the lexer. Words, numbers, strings in single quotes, the
  comparison operators and the punctuation of the supported grammar; anything else is a
  bad token, which no grammar rule accepts.
\<close>

function lex :: "nat \<Rightarrow> string \<Rightarrow> (nat \<times> token) list" where
  "lex p [] = []"
| "lex p (c # cs) =
     (if is_blank c then lex (Suc p) cs
      else if is_word_start c then
        (p, TWord (c # takeWhile is_word_char cs))
          # lex (Suc p + length (takeWhile is_word_char cs)) (dropWhile is_word_char cs)
      else if is_digit c then
        (p, TNum (c # takeWhile is_num_char cs))
          # lex (Suc p + length (takeWhile is_num_char cs)) (dropWhile is_num_char cs)
      else if c = quote then
        (if dropWhile (\<lambda>x. x \<noteq> quote) cs = [] then [(p, TBad (c # cs))]
         else (p, TStr (takeWhile (\<lambda>x. x \<noteq> quote) cs))
                # lex (p + 2 + length (takeWhile (\<lambda>x. x \<noteq> quote) cs))
                      (tl (dropWhile (\<lambda>x. x \<noteq> quote) cs)))
      else if c # take 1 cs \<in> {''<='', ''>='', ''<>''} then
        (p, TSym (c # take 1 cs)) # lex (p + 2) (drop 1 cs)
      else if c \<in> set '',.()*=<>;'' then (p, TSym [c]) # lex (Suc p) cs
      else (p, TBad [c]) # lex (Suc p) cs)"
  by pat_completeness auto
termination
proof (relation "measure (\<lambda>(p, s). length s)")
  fix p :: nat and c :: char and cs :: string
  assume "dropWhile (\<lambda>x. x \<noteq> quote) cs \<noteq> []"
  then have "length (tl (dropWhile (\<lambda>x. x \<noteq> quote) cs)) < length (dropWhile (\<lambda>x. x \<noteq> quote) cs)"
    by simp
  also have "\<dots> \<le> length cs" by (rule length_dropWhile_le)
  finally show "((p + 2 + length (takeWhile (\<lambda>x. x \<noteq> quote) cs), tl (dropWhile (\<lambda>x. x \<noteq> quote) cs)), p, c # cs)
        \<in> measure (\<lambda>(p, s). length s)" by simp
qed (auto simp: less_Suc_eq_le length_dropWhile_le)

type_synonym toks = "(nat \<times> token) list"

definition tokenize :: "string \<Rightarrow> toks" where
  "tokenize sql = lex 0 sql @ [(length sql, TEnd)]"

fun token_text :: "token \<Rightarrow> string" where
  "token_text (TWord w) = w"
| "token_text (TNum n) = n"
| "token_text (TStr s) = s"
| "token_text (TSym s) = s"
| "token_text (TBad s) = s"
| "token_text TEnd = ''end of input''"

definition expected :: "string \<Rightarrow> toks \<Rightarrow> syntax_error" where
  "expected what ts =
     (case ts of [] \<Rightarrow> SyntaxError 0 what ''end of input''
      | (p, t) # rest \<Rightarrow> SyntaxError p what (token_text t))"

text \<open>
  Modelled from the spec: the top-level keywords that make a statement a \<open>Write\<close>
  (sections 3 and 4.5), and the words that cannot name a table, a column or an alias.
\<close>

definition write_kind_of :: "string \<Rightarrow> write_kind option" where
  "write_kind_of w =
     map_of [(''INSERT'', INSERT), (''UPDATE'', UPDATE), (''DELETE'', DELETE),
             (''DROP'', DROP), (''ALTER'', ALTER), (''TRUNCATE'', TRUNCATE)] w"

definition reserved :: "string \<Rightarrow> bool" where
  "reserved w =
     (upper w \<in> set [''SELECT'', ''FROM'', ''WHERE'', ''JOIN'', ''INNER'', ''LEFT'', ''RIGHT'',
                      ''FULL'', ''OUTER'', ''ON'', ''AND'', ''OR'', ''NOT'', ''AS'', ''GROUP'',
                      ''BY'', ''HAVING'', ''ORDER'', ''LIMIT'', ''OVER''])"

definition next_kw :: "string \<Rightarrow> toks \<Rightarrow> bool" where
  "next_kw k ts = (case ts of (p, TWord w) # rest \<Rightarrow> upper w = k | _ \<Rightarrow> False)"

definition next_sym :: "string \<Rightarrow> toks \<Rightarrow> bool" where
  "next_sym k ts = (case ts of (p, TSym s) # rest \<Rightarrow> s = k | _ \<Rightarrow> False)"

text \<open>
  Modelled from the spec: expressions (section 3): a column reference, qualified or
  not, a literal, or an aggregate \<open>fn(arg)\<close>.
\<close>

definition number_literal :: "string \<Rightarrow> literal_value option" where
  "number_literal n =
     (if list_all is_digit n then Some (IntLit n)
      else let whole = takeWhile is_digit n; frac = drop (Suc (length whole)) n
           in if whole \<noteq> [] \<and> frac \<noteq> [] \<and> list_all is_digit frac then Some (DecLit n) else None)"

definition parse_operand :: "toks \<Rightarrow> syntax_error + expr \<times> toks" where
  "parse_operand ts =
     (case ts of
        (p, TWord w) # rest \<Rightarrow>
          if upper w = ''TRUE'' then Inr (Literal_expr (BoolLit True), rest)
          else if upper w = ''FALSE'' then Inr (Literal_expr (BoolLit False), rest)
          else if reserved w then Inl (expected ''expression'' ts)
          else (case rest of
                  (q, TSym s) # (r, TWord c) # rest' \<Rightarrow>
                    if s = ''.'' \<and> \<not> reserved c then Inr (ColumnRef (Some w) c, rest')
                    else Inr (ColumnRef None w, rest)
                | _ \<Rightarrow> Inr (ColumnRef None w, rest))
      | (p, TNum n) # rest \<Rightarrow>
          (case number_literal n of
             Some l \<Rightarrow> Inr (Literal_expr l, rest)
           | None \<Rightarrow> Inl (SyntaxError p ''number'' n))
      | (p, TStr s) # rest \<Rightarrow> Inr (Literal_expr (StrLit s), rest)
      | _ \<Rightarrow> Inl (expected ''expression'' ts))"

definition parse_expr :: "toks \<Rightarrow> syntax_error + expr \<times> toks" where
  "parse_expr ts =
     (case ts of
        (p, TWord f) # (q, TSym s) # rest \<Rightarrow>
          if s = ''('' \<and> \<not> reserved f then
            (if next_sym ''*'' rest then
               (if next_sym '')'' (tl rest) then Inr (Aggregate f (ColumnRef None ''*''), tl (tl rest))
                else Inl (expected '')'' (tl rest)))
             else (case parse_operand rest of
                     Inl e \<Rightarrow> Inl e
                   | Inr (a, rest') \<Rightarrow>
                       if next_sym '')'' rest' then Inr (Aggregate f a, tl rest')
                       else Inl (expected '')'' rest')))
          else parse_operand ts
      | _ \<Rightarrow> parse_operand ts)"

text \<open>
  Modelled from the spec: predicates (section 3): comparisons under \<open>AND\<close>, \<open>OR\<close>,
  \<open>NOT\<close> and parentheses. Each level of the grammar takes one unit of the depth bound;
  when the bound is used up the parser fails with "too complex" (section 5).
\<close>

definition cmp_op_of :: "string \<Rightarrow> cmp_op option" where
  "cmp_op_of s =
     map_of [(''='', Eq), (''<'', Lt), (''>'', Gt), (''<='', Le), (''>='', Ge), (''<>'', Ne)] s"

definition parse_comparison :: "toks \<Rightarrow> syntax_error + predicate \<times> toks" where
  "parse_comparison ts =
     (case parse_expr ts of
        Inl e \<Rightarrow> Inl e
      | Inr (l, rest) \<Rightarrow>
          (case rest of
             (p, TSym s) # rest' \<Rightarrow>
               (case cmp_op_of s of
                  None \<Rightarrow> Inl (expected ''comparison operator'' rest)
                | Some opr \<Rightarrow>
                    (case parse_expr rest' of
                       Inl e \<Rightarrow> Inl e
                     | Inr (r, rest'') \<Rightarrow> Inr (Comparison l opr r, rest'')))
           | _ \<Rightarrow> Inl (expected ''comparison operator'' rest)))"

fun parse_or :: "nat \<Rightarrow> toks \<Rightarrow> syntax_error + predicate \<times> toks"
and parse_and :: "nat \<Rightarrow> toks \<Rightarrow> syntax_error + predicate \<times> toks"
and parse_not :: "nat \<Rightarrow> toks \<Rightarrow> syntax_error + predicate \<times> toks" where
  "parse_or 0 ts = Inl TooComplex"
| "parse_or (Suc d) ts =
     (case parse_and d ts of
        Inl e \<Rightarrow> Inl e
      | Inr (l, rest) \<Rightarrow>
          if next_kw ''OR'' rest
          then (case parse_or d (tl rest) of
                  Inl e \<Rightarrow> Inl e
                | Inr (r, rest') \<Rightarrow> Inr (Or_pred l r, rest'))
          else Inr (l, rest))"
| "parse_and 0 ts = Inl TooComplex"
| "parse_and (Suc d) ts =
     (case parse_not d ts of
        Inl e \<Rightarrow> Inl e
      | Inr (l, rest) \<Rightarrow>
          if next_kw ''AND'' rest
          then (case parse_and d (tl rest) of
                  Inl e \<Rightarrow> Inl e
                | Inr (r, rest') \<Rightarrow> Inr (And_pred l r, rest'))
          else Inr (l, rest))"
| "parse_not 0 ts = Inl TooComplex"
| "parse_not (Suc d) ts =
     (if next_kw ''NOT'' ts
      then (case parse_not d (tl ts) of
              Inl e \<Rightarrow> Inl e
            | Inr (p, rest) \<Rightarrow> Inr (Not_pred p, rest))
      else if next_sym ''('' ts
      then (case parse_or d (tl ts) of
              Inl e \<Rightarrow> Inl e
            | Inr (p, rest) \<Rightarrow>
                if next_sym '')'' rest then Inr (p, tl rest) else Inl (expected '')'' rest))
      else parse_comparison ts)"

text \<open>
  Modelled from the spec: the maximum depth of an AST (section 5). The spec gives no
  number.
\<close>

definition max_ast_depth :: nat where
  "max_ast_depth = 64"

definition parse_predicate :: "toks \<Rightarrow> syntax_error + predicate \<times> toks" where
  "parse_predicate ts = parse_or max_ast_depth ts"

text \<open>
  Modelled from the spec: table references with an optional alias, the \<open>FROM\<close> list, the
  projections, and the joins (\<open>INNER\<close>, \<open>LEFT\<close>, \<open>RIGHT\<close>, \<open>FULL\<close>), each with its \<open>ON\<close>
  predicate (section 4.1).
\<close>

definition parse_table_ref :: "toks \<Rightarrow> syntax_error + table_ref \<times> toks" where
  "parse_table_ref ts =
     (case ts of
        (p, TWord t) # rest \<Rightarrow>
          if reserved t then Inl (expected ''table name'' ts)
          else (case rest of
                  (q, TWord a) # rest' \<Rightarrow>
                    if upper a = ''AS''
                    then (case rest' of
                            (r, TWord b) # rest'' \<Rightarrow>
                              if reserved b then Inl (expected ''alias'' rest')
                              else Inr (\<lparr>ref_table = t, ref_alias = Some b\<rparr>, rest'')
                          | _ \<Rightarrow> Inl (expected ''alias'' rest'))
                    else if reserved a then Inr (\<lparr>ref_table = t, ref_alias = None\<rparr>, rest)
                    else Inr (\<lparr>ref_table = t, ref_alias = Some a\<rparr>, rest')
                | _ \<Rightarrow> Inr (\<lparr>ref_table = t, ref_alias = None\<rparr>, rest))
      | _ \<Rightarrow> Inl (expected ''table name'' ts))"

fun parse_from_list :: "nat \<Rightarrow> toks \<Rightarrow> syntax_error + table_ref list \<times> toks" where
  "parse_from_list 0 ts = Inl TooComplex"
| "parse_from_list (Suc d) ts =
     (case parse_table_ref ts of
        Inl e \<Rightarrow> Inl e
      | Inr (r, rest) \<Rightarrow>
          if next_sym '','' rest
          then (case parse_from_list d (tl rest) of
                  Inl e \<Rightarrow> Inl e
                | Inr (rs, rest') \<Rightarrow> Inr (r # rs, rest'))
          else Inr ([r], rest))"

fun parse_projections :: "nat \<Rightarrow> toks \<Rightarrow> syntax_error + expr list \<times> toks" where
  "parse_projections 0 ts = Inl TooComplex"
| "parse_projections (Suc d) ts =
     (case (if next_sym ''*'' ts then Inr (ColumnRef None ''*'', tl ts) else parse_expr ts) of
        Inl e \<Rightarrow> Inl e
      | Inr (x, rest) \<Rightarrow>
          if next_sym '','' rest
          then (case parse_projections d (tl rest) of
                  Inl e \<Rightarrow> Inl e
                | Inr (xs, rest') \<Rightarrow> Inr (x # xs, rest'))
          else Inr ([x], rest))"

definition join_keyword :: "toks \<Rightarrow> (join_kind \<times> toks) option" where
  "join_keyword ts =
     (if next_kw ''JOIN'' ts then Some (INNER, tl ts)
      else if next_kw ''INNER'' ts \<and> next_kw ''JOIN'' (tl ts) then Some (INNER, tl (tl ts))
      else
        (case (if next_kw ''LEFT'' ts then Some LEFT
               else if next_kw ''RIGHT'' ts then Some RIGHT
               else if next_kw ''FULL'' ts then Some FULL else None) of
           None \<Rightarrow> None
         | Some k \<Rightarrow>
             if next_kw ''JOIN'' (tl ts) then Some (k, tl (tl ts))
             else if next_kw ''OUTER'' (tl ts) \<and> next_kw ''JOIN'' (tl (tl ts))
             then Some (k, tl (tl (tl ts)))
             else None))"

fun parse_joins :: "nat \<Rightarrow> table_ref \<Rightarrow> toks \<Rightarrow> syntax_error + join list \<times> toks" where
  "parse_joins 0 l ts = Inl TooComplex"
| "parse_joins (Suc d) l ts =
     (case join_keyword ts of
        None \<Rightarrow> Inr ([], ts)
      | Some (k, rest) \<Rightarrow>
          (case parse_table_ref rest of
             Inl e \<Rightarrow> Inl e
           | Inr (r, rest1) \<Rightarrow>
               if \<not> next_kw ''ON'' rest1 then Inl (expected ''ON'' rest1)
               else (case parse_predicate (tl rest1) of
                       Inl e \<Rightarrow> Inl e
                     | Inr (p, rest2) \<Rightarrow>
                         (case parse_joins d r rest2 of
                            Inl e \<Rightarrow> Inl e
                          | Inr (js, rest3) \<Rightarrow>
                              Inr (\<lparr>join_left = l, join_right = r, join_on = p, join_kind = k\<rparr> # js,
                                   rest3)))))"

text \<open>
  Modelled from the spec: what may follow the \<open>WHERE\<close> clause. \<open>GROUP BY\<close>, \<open>HAVING\<close>,
  \<open>ORDER BY\<close> and \<open>LIMIT\<close> parse, and are tagged unsupported (section 4.1).
\<close>

definition parse_tail :: "toks \<Rightarrow> syntax_error + string list" where
  "parse_tail ts =
     (case ts of
        (p, TWord w) # rest \<Rightarrow>
          if upper w \<in> set [''GROUP'', ''HAVING'', ''ORDER'', ''LIMIT''] then Inr [upper w]
          else Inl (expected ''end of statement'' ts)
      | (p, TSym s) # (q, TEnd) # rest \<Rightarrow>
          if s = '';'' then Inr [] else Inl (expected ''end of statement'' ts)
      | (p, TEnd) # rest \<Rightarrow> Inr []
      | _ \<Rightarrow> Inl (expected ''end of statement'' ts))"

definition parse_select :: "toks \<Rightarrow> syntax_error + statement" where
  "parse_select ts =
     (case parse_projections max_ast_depth ts of
        Inl e \<Rightarrow> Inl e
      | Inr (ps, rest) \<Rightarrow>
          if \<not> next_kw ''FROM'' rest then Inl (expected ''FROM'' rest)
          else (case parse_from_list max_ast_depth (tl rest) of
                  Inl e \<Rightarrow> Inl e
                | Inr (fs, rest1) \<Rightarrow>
                    (case parse_joins max_ast_depth (last fs) rest1 of
                       Inl e \<Rightarrow> Inl e
                     | Inr (js, rest2) \<Rightarrow>
                         (case (if next_kw ''WHERE'' rest2
                                then (case parse_predicate (tl rest2) of
                                        Inl e \<Rightarrow> Inl e
                                      | Inr (w, rest3) \<Rightarrow> Inr (Some w, rest3))
                                else Inr (None, rest2)) of
                            Inl e \<Rightarrow> Inl e
                          | Inr (w, rest3) \<Rightarrow>
                              (case parse_tail rest3 of
                                 Inl e \<Rightarrow> Inl e
                               | Inr u \<Rightarrow>
                                   Inr (Select \<lparr>projections = ps, from_refs = fs, joins = js,
                                                where_pred = w, unsupported = u\<rparr>))))))"

text \<open>
  Modelled from the spec: the parser (section 4.1). A statement whose top-level
  keyword is \<open>SELECT\<close> is parsed by the grammar above; one whose top-level keyword is
  \<open>INSERT\<close>, \<open>UPDATE\<close>, \<open>DELETE\<close>, \<open>DROP\<close>, \<open>ALTER\<close> or \<open>TRUNCATE\<close> parses into \<open>Write\<close>:
  the parser does not reject it.
\<close>

definition parse :: "string \<Rightarrow> syntax_error + statement" where
  "parse sql =
     (case tokenize sql of
        (p, TWord w) # rest \<Rightarrow>
          if upper w = ''SELECT'' then parse_select rest
          else (case write_kind_of (upper w) of
                  Some k \<Rightarrow> Inr (Write k)
                | None \<Rightarrow> Inl (SyntaxError p ''SELECT'' w))
      | ts \<Rightarrow> Inl (expected ''SELECT'' ts))"


subsection \<open>Syntactic Validator (stage 1)\<close>

text \<open>
  Modelled from the spec: stage 1 (section 4.2). The parser's outcome as a stage
  result, with the AST when the stage passes; an unsupported clause is rejected here
  with its own diagnostic (section 4.1).
\<close>

definition show_syntax_error :: "syntax_error \<Rightarrow> string" where
  "show_syntax_error e =
     (case e of
        SyntaxError p what found \<Rightarrow>
          ''SyntaxError at '' @ string_of_nat p @ '': expected '' @ what @ '', found '' @ found
      | TooComplex \<Rightarrow> ''SyntaxError: too complex'')"

definition syntactic_validator :: "string \<Rightarrow> stage_result \<times> statement option" where
  "syntactic_validator sql =
     (case parse sql of
        Inl e \<Rightarrow> (\<lparr>valid = False, errors = [show_syntax_error e]\<rparr>, None)
      | Inr (Write k) \<Rightarrow> (\<lparr>valid = True, errors = []\<rparr>, Some (Write k))
      | Inr (Select s) \<Rightarrow>
          if unsupported s = [] then (\<lparr>valid = True, errors = []\<rparr>, Some (Select s))
          else (\<lparr>valid = False, errors = map (\<lambda>u. ''Unsupported: '' @ u) (unsupported s)\<rparr>, None))"


subsection \<open>Semantic Validator (stage 2)\<close>

text \<open>
  Modelled from the spec: stage 2 (section 4.3) and its errors (section 7). Tables
  are matched without regard to case; a qualified column is looked up in the table its
  qualifier names, an unqualified one in every table in scope; all errors are
  collected. A \<open>Write\<close> holds no table or column reference of the AST (section 3 gives
  it a kind), so stage 2 finds nothing to resolve in it and it goes on to stage 3, which
  always rejects it (section 4.1).
\<close>

datatype semantic_error =
    UnknownTable string
  | UnknownColumn string
  | AmbiguousColumn string "string list"
  | TypeMismatch string

definition same_name :: "string \<Rightarrow> string \<Rightarrow> bool" where
  "same_name a b = (upper a = upper b)"

definition find_table :: "schema_graph \<Rightarrow> string \<Rightarrow> table option" where
  "find_table g n = find (\<lambda>t. same_name (tbl_name t) n) g"

definition find_column :: "table \<Rightarrow> string \<Rightarrow> column option" where
  "find_column t c = find (\<lambda>x. same_name (col_name x) c) (tbl_columns t)"

definition scope_of :: "select_stmt \<Rightarrow> table_ref list" where
  "scope_of s = from_refs s @ map join_right (joins s)"

definition ref_name :: "table_ref \<Rightarrow> string" where
  "ref_name r = (case ref_alias r of Some a \<Rightarrow> a | None \<Rightarrow> ref_table r)"

definition column_in :: "schema_graph \<Rightarrow> table_ref \<Rightarrow> string \<Rightarrow> column option" where
  "column_in g r c = (case find_table g (ref_table r) of None \<Rightarrow> None | Some t \<Rightarrow> find_column t c)"

definition resolve_column ::
    "schema_graph \<Rightarrow> table_ref list \<Rightarrow> string option \<Rightarrow> string \<Rightarrow> semantic_error + table_ref \<times> column" where
  "resolve_column g scope q c =
     (case q of
        Some t \<Rightarrow>
          (case find (\<lambda>r. same_name (ref_name r) t) scope of
             None \<Rightarrow> Inl (UnknownTable t)
           | Some r \<Rightarrow>
               (case column_in g r c of
                  None \<Rightarrow> Inl (UnknownColumn (t @ ''.'' @ c))
                | Some col \<Rightarrow> Inr (r, col)))
      | None \<Rightarrow>
          (case filter (\<lambda>r. column_in g r c \<noteq> None) scope of
             [] \<Rightarrow> Inl (UnknownColumn c)
           | [r] \<Rightarrow> (case column_in g r c of None \<Rightarrow> Inl (UnknownColumn c) | Some col \<Rightarrow> Inr (r, col))
           | rs \<Rightarrow> Inl (AmbiguousColumn c (map ref_table rs))))"

fun expr_errors :: "schema_graph \<Rightarrow> table_ref list \<Rightarrow> expr \<Rightarrow> semantic_error list" where
  "expr_errors g scope (ColumnRef q c) =
     (if q = None \<and> c = ''*'' then []
      else case resolve_column g scope q c of Inl e \<Rightarrow> [e] | Inr rc \<Rightarrow> [])"
| "expr_errors g scope (Literal_expr l) = []"
| "expr_errors g scope (Aggregate f a) = expr_errors g scope a"

text \<open>
  Modelled from the spec: type compatibility (section 4.3): identical types, or
  \<open>INTEGER\<close> with \<open>DECIMAL\<close>; a literal compared with a column must be parseable as the
  column's type.
\<close>

definition numeric :: "col_type \<Rightarrow> bool" where
  "numeric t = (t = INTEGER \<or> t = DECIMAL)"

definition compatible :: "col_type \<Rightarrow> col_type \<Rightarrow> bool" where
  "compatible a b = (a = b \<or> numeric a \<and> numeric b)"

definition date_shaped :: "string \<Rightarrow> bool" where
  "date_shaped s =
     (length s = 10 \<and> list_all is_digit (take 4 s) \<and> s ! 4 = CHR ''-'' \<and>
      list_all is_digit (take 2 (drop 5 s)) \<and> s ! 7 = CHR ''-'' \<and> list_all is_digit (drop 8 s))"

fun literal_fits :: "col_type \<Rightarrow> literal_value \<Rightarrow> bool" where
  "literal_fits INTEGER (IntLit n) = True"
| "literal_fits DECIMAL (IntLit n) = True"
| "literal_fits DECIMAL (DecLit n) = True"
| "literal_fits VARCHAR (StrLit s) = True"
| "literal_fits DATE (StrLit s) = date_shaped s"
| "literal_fits BOOLEAN (BoolLit b) = True"
| "literal_fits t l = False"

fun literal_type :: "literal_value \<Rightarrow> col_type" where
  "literal_type (IntLit n) = INTEGER"
| "literal_type (DecLit n) = DECIMAL"
| "literal_type (StrLit s) = VARCHAR"
| "literal_type (BoolLit b) = BOOLEAN"

fun show_literal :: "literal_value \<Rightarrow> string" where
  "show_literal (IntLit n) = n"
| "show_literal (DecLit n) = n"
| "show_literal (StrLit s) = [quote] @ s @ [quote]"
| "show_literal (BoolLit b) = (if b then ''TRUE'' else ''FALSE'')"

fun show_expr :: "expr \<Rightarrow> string" where
  "show_expr (ColumnRef q c) = (case q of None \<Rightarrow> c | Some t \<Rightarrow> t @ ''.'' @ c)"
| "show_expr (Literal_expr l) = show_literal l"
| "show_expr (Aggregate f a) = f @ ''('' @ show_expr a @ '')''"

fun show_op :: "cmp_op \<Rightarrow> string" where
  "show_op Eq = ''=''"
| "show_op Lt = ''<''"
| "show_op Gt = ''>''"
| "show_op Le = ''<=''"
| "show_op Ge = ''>=''"
| "show_op Ne = ''<>''"

definition show_comparison :: "expr \<Rightarrow> cmp_op \<Rightarrow> expr \<Rightarrow> string" where
  "show_comparison l opr r = show_expr l @ '' '' @ show_op opr @ '' '' @ show_expr r"

text \<open>
  Modelled from the spec: the type an operand has: a column's type where the
  reference resolves, a literal's kind, nothing for an unresolved reference or an
  aggregate. In a join's \<open>ON\<close> predicate both sides must be columns.
\<close>

datatype operand_type = OfColumn col_type | OfLiteral literal_value | Untyped

fun type_of_operand :: "schema_graph \<Rightarrow> table_ref list \<Rightarrow> expr \<Rightarrow> operand_type" where
  "type_of_operand g scope (ColumnRef q c) =
     (case resolve_column g scope q c of Inl e \<Rightarrow> Untyped | Inr (r, col) \<Rightarrow> OfColumn (col_type col))"
| "type_of_operand g scope (Literal_expr l) = OfLiteral l"
| "type_of_operand g scope (Aggregate f a) = Untyped"

fun types_agree :: "bool \<Rightarrow> operand_type \<Rightarrow> operand_type \<Rightarrow> bool" where
  "types_agree in_join (OfColumn a) (OfColumn b) = compatible a b"
| "types_agree in_join (OfColumn a) (OfLiteral l) = (\<not> in_join \<and> literal_fits a l)"
| "types_agree in_join (OfLiteral l) (OfColumn a) = (\<not> in_join \<and> literal_fits a l)"
| "types_agree in_join (OfLiteral l) (OfLiteral m) =
     (\<not> in_join \<and> compatible (literal_type l) (literal_type m))"
| "types_agree in_join a b = True"

fun predicate_errors ::
    "schema_graph \<Rightarrow> table_ref list \<Rightarrow> bool \<Rightarrow> predicate \<Rightarrow> semantic_error list" where
  "predicate_errors g scope in_join (Comparison l opr r) =
     expr_errors g scope l @ expr_errors g scope r @
     (if types_agree in_join (type_of_operand g scope l) (type_of_operand g scope r) then []
      else [TypeMismatch (show_comparison l opr r)])"
| "predicate_errors g scope in_join (And_pred a b) =
     predicate_errors g scope in_join a @ predicate_errors g scope in_join b"
| "predicate_errors g scope in_join (Or_pred a b) =
     predicate_errors g scope in_join a @ predicate_errors g scope in_join b"
| "predicate_errors g scope in_join (Not_pred a) = predicate_errors g scope in_join a"

text \<open>
  Modelled from the spec: the semantic validator (section 4.3): every table
  reference, every projected column, every join predicate and the \<open>WHERE\<close> predicate.
\<close>

definition table_errors :: "schema_graph \<Rightarrow> table_ref \<Rightarrow> semantic_error list" where
  "table_errors g r = (if find_table g (ref_table r) = None then [UnknownTable (ref_table r)] else [])"

definition semantic_errors :: "schema_graph \<Rightarrow> statement \<Rightarrow> semantic_error list" where
  "semantic_errors g ast =
     (case ast of
        Write k \<Rightarrow> []
      | Select s \<Rightarrow>
          concat (map (table_errors g) (scope_of s)) @
          concat (map (expr_errors g (scope_of s)) (projections s)) @
          concat (map (\<lambda>j. predicate_errors g (scope_of s) True (join_on j)) (joins s)) @
          (case where_pred s of None \<Rightarrow> [] | Some w \<Rightarrow> predicate_errors g (scope_of s) False w))"

fun show_semantic_error :: "semantic_error \<Rightarrow> string" where
  "show_semantic_error (UnknownTable t) = ''UnknownTable{'' @ t @ ''}''"
| "show_semantic_error (UnknownColumn c) = ''UnknownColumn{'' @ c @ ''}''"
| "show_semantic_error (AmbiguousColumn c ts) =
     ''AmbiguousColumn{'' @ c @ '': '' @ join_with '', '' ts @ ''}''"
| "show_semantic_error (TypeMismatch w) = ''TypeMismatch{'' @ w @ ''}''"

definition semantic_validator :: "schema_graph \<Rightarrow> statement \<Rightarrow> stage_result" where
  "semantic_validator g ast =
     \<lparr>valid = (semantic_errors g ast = []), errors = map show_semantic_error (semantic_errors g ast)\<rparr>"



subsection \<open>TRC Translator\<close>

text \<open>
  Modelled from the spec: the TRC formula (section 3), a closed sum type, and its head:
  the output variable, or a tuple of attributes when the projections span several
  variables.
\<close>

datatype operand = Value literal_value | Attr string string

datatype formula =
    RelationAtom string string
  | AttrComparison string string cmp_op operand
  | And_trc formula formula
  | Or_trc formula formula
  | Not_trc formula
  | Exists string formula
  | ForAll string formula

datatype head = HeadVar string | HeadTuple "(string \<times> string) list"

record trc_query =
  head :: head
  projection :: "(string \<times> string) list"
  body :: formula

text \<open>
  Modelled from the spec: SQL to TRC (section 4.4). One variable \<open>t0, t1, ...\<close> per table
  reference, in \<open>FROM\<close>-then-\<open>JOIN\<close> order.
\<close>

definition tuple_vars :: "table_ref list \<Rightarrow> (table_ref \<times> string) list" where
  "tuple_vars scope = zip scope (map (\<lambda>i. ''t'' @ string_of_nat i) [0..<length scope])"

definition var_of ::
    "schema_graph \<Rightarrow> table_ref list \<Rightarrow> string option \<Rightarrow> string \<Rightarrow> (string \<times> string) option" where
  "var_of g scope q c =
     (case resolve_column g scope q c of
        Inl e \<Rightarrow> None
      | Inr (r, col) \<Rightarrow>
          (case map_of (tuple_vars scope) r of
             None \<Rightarrow> None
           | Some v \<Rightarrow> Some (v, col_name col)))"

text \<open>
  Modelled from the spec: a comparison becomes an \<open>AttrComparison\<close>; what has no such
  form (an aggregate, two literals, a reference that does not resolve) is flagged.
  \<open>And\<close>, \<open>Or\<close> and \<open>Not\<close> recurse one to one.
\<close>

fun flip :: "cmp_op \<Rightarrow> cmp_op" where
  "flip Eq = Eq"
| "flip Ne = Ne"
| "flip Lt = Gt"
| "flip Gt = Lt"
| "flip Le = Ge"
| "flip Ge = Le"

fun translate_comparison ::
    "schema_graph \<Rightarrow> table_ref list \<Rightarrow> expr \<Rightarrow> cmp_op \<Rightarrow> expr \<Rightarrow> string + formula" where
  "translate_comparison g scope (ColumnRef q c) opr (Literal_expr l) =
     (case var_of g scope q c of
        None \<Rightarrow> Inl (show_expr (ColumnRef q c))
      | Some (v, a) \<Rightarrow> Inr (AttrComparison v a opr (Value l)))"
| "translate_comparison g scope (Literal_expr l) opr (ColumnRef q c) =
     (case var_of g scope q c of
        None \<Rightarrow> Inl (show_expr (ColumnRef q c))
      | Some (v, a) \<Rightarrow> Inr (AttrComparison v a (flip opr) (Value l)))"
| "translate_comparison g scope (ColumnRef q c) opr (ColumnRef q' c') =
     (case var_of g scope q c of
        None \<Rightarrow> Inl (show_expr (ColumnRef q c))
      | Some (v, a) \<Rightarrow>
          (case var_of g scope q' c' of
             None \<Rightarrow> Inl (show_expr (ColumnRef q' c'))
           | Some (v', a') \<Rightarrow> Inr (AttrComparison v a opr (Attr v' a'))))"
| "translate_comparison g scope l opr r = Inl (show_comparison l opr r)"

fun translate_predicate ::
    "schema_graph \<Rightarrow> table_ref list \<Rightarrow> predicate \<Rightarrow> string list + formula" where
  "translate_predicate g scope (Comparison l opr r) =
     (case translate_comparison g scope l opr r of Inl u \<Rightarrow> Inl [u] | Inr f \<Rightarrow> Inr f)"
| "translate_predicate g scope (And_pred a b) =
     (case (translate_predicate g scope a, translate_predicate g scope b) of
        (Inr x, Inr y) \<Rightarrow> Inr (And_trc x y)
      | (Inl u, Inl w) \<Rightarrow> Inl (u @ w)
      | (Inl u, Inr y) \<Rightarrow> Inl u
      | (Inr x, Inl w) \<Rightarrow> Inl w)"
| "translate_predicate g scope (Or_pred a b) =
     (case (translate_predicate g scope a, translate_predicate g scope b) of
        (Inr x, Inr y) \<Rightarrow> Inr (Or_trc x y)
      | (Inl u, Inl w) \<Rightarrow> Inl (u @ w)
      | (Inl u, Inr y) \<Rightarrow> Inl u
      | (Inr x, Inl w) \<Rightarrow> Inl w)"
| "translate_predicate g scope (Not_pred a) =
     (case translate_predicate g scope a of Inl u \<Rightarrow> Inl u | Inr x \<Rightarrow> Inr (Not_trc x))"

text \<open>
  Modelled from the spec: the body is the conjunction of one \<open>RelationAtom\<close> per table,
  the join predicates and the \<open>WHERE\<close> predicate. An outer join has no range-restricted
  form here and is flagged as an unsupported join shape; a flagged construct yields no
  formula.
\<close>

fun conjunction :: "formula \<Rightarrow> formula list \<Rightarrow> formula" where
  "conjunction f [] = f"
| "conjunction f (x # xs) = And_trc f (conjunction x xs)"

definition flagged_of :: "(string list + 'a) \<Rightarrow> string list" where
  "flagged_of r = (case r of Inl u \<Rightarrow> u | Inr x \<Rightarrow> [])"

definition formulas_of :: "(string list + formula) list \<Rightarrow> formula list" where
  "formulas_of rs = concat (map (\<lambda>r. case r of Inl u \<Rightarrow> [] | Inr f \<Rightarrow> [f]) rs)"

fun projected :: "schema_graph \<Rightarrow> table_ref list \<Rightarrow> expr \<Rightarrow> string list + (string \<times> string) list" where
  "projected g scope (ColumnRef q c) =
     (if q = None \<and> c = ''*'' then Inr (map (\<lambda>(r, v). (v, ''*'')) (tuple_vars scope))
      else case var_of g scope q c of
             None \<Rightarrow> Inl [show_expr (ColumnRef q c)]
           | Some va \<Rightarrow> Inr [va])"
| "projected g scope (Literal_expr l) = Inl [show_literal l]"
| "projected g scope (Aggregate f a) = Inl [''Aggregate '' @ show_expr (Aggregate f a)]"

definition sql_to_trc :: "schema_graph \<Rightarrow> select_stmt \<Rightarrow> string list + trc_query" where
  "sql_to_trc g s =
     (let scope = scope_of s;
          vars = tuple_vars scope;
          atoms = map (\<lambda>(r, v). RelationAtom v (ref_table r)) vars;
          outer = concat (map (\<lambda>j. if join_kind j = INNER then []
                                     else [''UnsupportedJoinShape '' @ ref_name (join_right j)])
                              (joins s));
          join_preds = map (\<lambda>j. translate_predicate g scope (join_on j)) (joins s);
          where_preds = (case where_pred s of
                            None \<Rightarrow> []
                          | Some w \<Rightarrow> [translate_predicate g scope w]);
          projs = map (projected g scope) (projections s);
          flagged = concat (map flagged_of projs) @ outer
                    @ concat (map flagged_of join_preds) @ concat (map flagged_of where_preds);
          attrs = concat (map (\<lambda>r. case r of Inl u \<Rightarrow> [] | Inr p \<Rightarrow> p) projs)
      in if flagged \<noteq> [] then Inl flagged
         else case atoms @ formulas_of join_preds @ formulas_of where_preds of
                [] \<Rightarrow> Inl [''no table'']
              | f # fs \<Rightarrow>
                  Inr \<lparr>head = (if list_all (\<lambda>(v, a). v = ''t0'') attrs then HeadVar ''t0''
                                 else HeadTuple attrs),
                       projection = attrs,
                       body = conjunction f fs\<rparr>)"

text \<open>
  Modelled from the spec: TRC to readable (section 4.4): the symbolic string, in UTF-8,
  and the gloss. The spec names no symbol and no wording for \<open>ForAll\<close>; the universal
  quantifier sign and "for every row" are used.
\<close>

definition sym_in :: string where "sym_in = [CHR 0xE2, CHR 0x88, CHR 0x88]"
definition sym_and :: string where "sym_and = [CHR 0xE2, CHR 0x88, CHR 0xA7]"
definition sym_or :: string where "sym_or = [CHR 0xE2, CHR 0x88, CHR 0xA8]"
definition sym_not :: string where "sym_not = [CHR 0xC2, CHR 0xAC]"
definition sym_exists :: string where "sym_exists = [CHR 0xE2, CHR 0x88, CHR 0x83]"
definition sym_forall :: string where "sym_forall = [CHR 0xE2, CHR 0x88, CHR 0x80]"

fun show_operand :: "operand \<Rightarrow> string" where
  "show_operand (Value l) = show_literal l"
| "show_operand (Attr v a) = v @ ''.'' @ a"

fun is_binary :: "formula \<Rightarrow> bool" where
  "is_binary (And_trc a b) = True"
| "is_binary (Or_trc a b) = True"
| "is_binary f = False"

definition paren :: "bool \<Rightarrow> string \<Rightarrow> string" where
  "paren b s = (if b then ''('' @ s @ '')'' else s)"

fun symbolic :: "formula \<Rightarrow> string" where
  "symbolic (RelationAtom v t) = v @ sym_in @ t"
| "symbolic (AttrComparison v a opr x) = v @ ''.'' @ a @ '' '' @ show_op opr @ '' '' @ show_operand x"
| "symbolic (And_trc a b) =
     paren (is_binary a) (symbolic a) @ '' '' @ sym_and @ '' ''
       @ paren (case b of Or_trc x y \<Rightarrow> True | _ \<Rightarrow> False) (symbolic b)"
| "symbolic (Or_trc a b) =
     paren (is_binary a) (symbolic a) @ '' '' @ sym_or @ '' ''
       @ paren (case b of And_trc x y \<Rightarrow> True | _ \<Rightarrow> False) (symbolic b)"
| "symbolic (Not_trc a) = sym_not @ ''('' @ symbolic a @ '')''"
| "symbolic (Exists v a) = sym_exists @ v @ '' ('' @ symbolic a @ '')''"
| "symbolic (ForAll v a) = sym_forall @ v @ '' ('' @ symbolic a @ '')''"

fun gloss :: "formula \<Rightarrow> string" where
  "gloss (RelationAtom v t) = v @ '' is a row of '' @ t"
| "gloss (AttrComparison v a opr x) = v @ ''.'' @ a @ '' '' @ show_op opr @ '' '' @ show_operand x"
| "gloss (And_trc a b) = gloss a @ '' and '' @ gloss b"
| "gloss (Or_trc a b) = ''('' @ gloss a @ '' or '' @ gloss b @ '')''"
| "gloss (Not_trc a) = ''not ('' @ gloss a @ '')''"
| "gloss (Exists v a) = ''there exists a row '' @ v @ '' such that '' @ gloss a"
| "gloss (ForAll v a) = ''for every row '' @ v @ '', '' @ gloss a"

fun show_head :: "head \<Rightarrow> string" where
  "show_head (HeadVar v) = v"
| "show_head (HeadTuple ps) = ''('' @ join_with '', '' (map (\<lambda>(v, a). v @ ''.'' @ a) ps) @ '')''"

definition trc_to_readable :: "trc_query \<Rightarrow> trc_text" where
  "trc_to_readable q =
     \<lparr>formula_text = ''{'' @ show_head (head q) @ '' | '' @ symbolic (body q) @ ''}'',
      natural_language =
        ''the '' @ join_with '', '' (map (\<lambda>(v, a). v @ ''.'' @ a) (projection q))
          @ '' such that '' @ gloss (body q)\<rparr>"


subsection \<open>Safety Checker (stage 3)\<close>

text \<open>
  Modelled from the spec: the errors of stage 3 (sections 4.5 and 7).
\<close>

datatype logical_error =
    WriteOperationForbidden
  | UnsupportedConstruct string
  | UnsafeFormula string
  | AmbiguousQuantifier string

text \<open>
  Modelled from the spec: range restriction (section 4.5, check 3). The restrictors of
  a formula are the relation atoms conjoined in it: reached through \<open>And\<close> only, not
  through a disjunction, a negation or a quantifier. A quantified variable must be among
  the restrictors of its body, the head variables among those of the whole body; the
  free variables of a negated formula must be restricted by an atom of an enclosing
  conjunction, which \<open>env\<close> collects.
\<close>

fun restrictors :: "formula \<Rightarrow> (string \<times> string) list" where
  "restrictors (RelationAtom v t) = [(v, t)]"
| "restrictors (And_trc a b) = restrictors a @ restrictors b"
| "restrictors f = []"

fun operand_vars :: "operand \<Rightarrow> string list" where
  "operand_vars (Value l) = []"
| "operand_vars (Attr v a) = [v]"

fun free_vars :: "formula \<Rightarrow> string list" where
  "free_vars (RelationAtom v t) = [v]"
| "free_vars (AttrComparison v a opr x) = v # operand_vars x"
| "free_vars (And_trc a b) = free_vars a @ free_vars b"
| "free_vars (Or_trc a b) = free_vars a @ free_vars b"
| "free_vars (Not_trc a) = free_vars a"
| "free_vars (Exists v a) = removeAll v (free_vars a)"
| "free_vars (ForAll v a) = removeAll v (free_vars a)"

definition restricted_in :: "string \<Rightarrow> formula \<Rightarrow> bool" where
  "restricted_in v f = (v \<in> set (map fst (restrictors f)))"

fun unsafe_vars :: "string list \<Rightarrow> formula \<Rightarrow> string list" where
  "unsafe_vars env (RelationAtom v t) = []"
| "unsafe_vars env (AttrComparison v a opr x) = []"
| "unsafe_vars env (And_trc a b) =
     unsafe_vars (map fst (restrictors (And_trc a b)) @ env) a
       @ unsafe_vars (map fst (restrictors (And_trc a b)) @ env) b"
| "unsafe_vars env (Or_trc a b) = unsafe_vars env a @ unsafe_vars env b"
| "unsafe_vars env (Not_trc a) = filter (\<lambda>x. x \<notin> set env) (free_vars a) @ unsafe_vars env a"
| "unsafe_vars env (Exists v a) =
     (if restricted_in v a then [] else [v]) @ unsafe_vars (removeAll v env) a"
| "unsafe_vars env (ForAll v a) =
     (if restricted_in v a then [] else [v]) @ unsafe_vars (removeAll v env) a"

fun head_vars :: "head \<Rightarrow> string list" where
  "head_vars (HeadVar v) = [v]"
| "head_vars (HeadTuple ps) = remdups (map fst ps)"

definition range_errors :: "trc_query \<Rightarrow> logical_error list" where
  "range_errors q =
     map UnsafeFormula
       (filter (\<lambda>v. \<not> restricted_in v (body q)) (head_vars (head q)) @ unsafe_vars [] (body q))"

text \<open>
  Modelled from the spec: ambiguous quantifier scope (section 4.5, check 4): a variable
  with relation atoms of two different tables in one scope.
\<close>

fun free_atoms :: "formula \<Rightarrow> (string \<times> string) list" where
  "free_atoms (RelationAtom v t) = [(v, t)]"
| "free_atoms (AttrComparison v a opr x) = []"
| "free_atoms (And_trc a b) = free_atoms a @ free_atoms b"
| "free_atoms (Or_trc a b) = free_atoms a @ free_atoms b"
| "free_atoms (Not_trc a) = free_atoms a"
| "free_atoms (Exists v a) = filter (\<lambda>(x, t). x \<noteq> v) (free_atoms a)"
| "free_atoms (ForAll v a) = filter (\<lambda>(x, t). x \<noteq> v) (free_atoms a)"

definition rebound :: "(string \<times> string) list \<Rightarrow> string list" where
  "rebound atoms =
     remdups (map fst (filter (\<lambda>(v, t). list_ex (\<lambda>(w, u). w = v \<and> u \<noteq> t) atoms) atoms))"

fun ambiguous_vars :: "formula \<Rightarrow> string list" where
  "ambiguous_vars (RelationAtom v t) = []"
| "ambiguous_vars (AttrComparison v a opr x) = []"
| "ambiguous_vars (And_trc a b) = ambiguous_vars a @ ambiguous_vars b"
| "ambiguous_vars (Or_trc a b) = ambiguous_vars a @ ambiguous_vars b"
| "ambiguous_vars (Not_trc a) = ambiguous_vars a"
| "ambiguous_vars (Exists v a) =
     rebound (filter (\<lambda>(x, t). x = v) (free_atoms a)) @ ambiguous_vars a"
| "ambiguous_vars (ForAll v a) =
     rebound (filter (\<lambda>(x, t). x = v) (free_atoms a)) @ ambiguous_vars a"

definition ambiguity_errors :: "trc_query \<Rightarrow> logical_error list" where
  "ambiguity_errors q =
     map AmbiguousQuantifier (rebound (free_atoms (body q)) @ ambiguous_vars (body q))"

text \<open>
  Modelled from the spec: the Safety Checker (section 4.5). Its input is the
  translator's result and the original AST. A \<open>Write\<close> is rejected with
  \<open>WriteOperationForbidden\<close> and nothing else is checked; otherwise the flagged constructs,
  the range restriction and the quantifier scopes are checked, and all errors collected.
\<close>

record translation =
  formula :: "trc_query option"
  flagged :: "string list"

definition translate :: "schema_graph \<Rightarrow> statement \<Rightarrow> translation" where
  "translate g ast =
     (case ast of
        Write k \<Rightarrow> \<lparr>formula = None, flagged = []\<rparr>
      | Select s \<Rightarrow>
          (case sql_to_trc g s of
             Inl u \<Rightarrow> \<lparr>formula = None, flagged = u\<rparr>
           | Inr q \<Rightarrow> \<lparr>formula = Some q, flagged = []\<rparr>))"

definition safety_checker :: "statement \<Rightarrow> translation \<Rightarrow> logical_error list" where
  "safety_checker ast tr =
     (case ast of
        Write k \<Rightarrow> [WriteOperationForbidden]
      | Select s \<Rightarrow>
          map UnsupportedConstruct (flagged tr) @
          (case formula tr of
             None \<Rightarrow> []
           | Some q \<Rightarrow> range_errors q @ ambiguity_errors q))"

fun show_logical_error :: "logical_error \<Rightarrow> string" where
  "show_logical_error WriteOperationForbidden = ''WriteOperationForbidden''"
| "show_logical_error (UnsupportedConstruct c) = ''UnsupportedConstruct{'' @ c @ ''}''"
| "show_logical_error (UnsafeFormula v) = ''UnsafeFormula{'' @ v @ ''}''"
| "show_logical_error (AmbiguousQuantifier v) = ''AmbiguousQuantifier{'' @ v @ ''}''"

definition logical_validator :: "schema_graph \<Rightarrow> statement \<Rightarrow> stage_result \<times> trc_text option" where
  "logical_validator g ast =
     (let tr = translate g ast; errs = safety_checker ast tr
      in (\<lparr>valid = (errs = []), errors = map show_logical_error errs\<rparr>,
          map_option trc_to_readable (formula tr)))"


subsection \<open>Gauntlet Orchestrator\<close>

text \<open>
  Modelled from the spec: the orchestrator (section 4.6), a state machine
  \<open>Syntactic\<close>, \<open>Semantic\<close>, \<open>TrcSafety\<close>, \<open>Done\<close>. It advances only when the current stage
  is valid; on a failure it goes to \<open>Done\<close> with the later stages skipped. The run is
  the iteration of \<open>step\<close> until \<open>Done\<close>, which at most three steps reach.
\<close>

datatype stage_outcome = Ran stage_result | Skipped

record pipeline_outcome =
  syntactic_outcome :: stage_outcome
  semantic_outcome :: stage_outcome
  logical_outcome :: stage_outcome
  trc_outcome :: "trc_text option"
  passed :: bool

datatype gauntlet_state =
    Syntactic
  | Semantic stage_result statement
  | TrcSafety stage_result stage_result statement
  | Done pipeline_outcome

definition stopped :: "stage_outcome \<Rightarrow> stage_outcome \<Rightarrow> gauntlet_state" where
  "stopped s1 s2 =
     Done \<lparr>syntactic_outcome = s1, semantic_outcome = s2, logical_outcome = Skipped,
           trc_outcome = None, passed = False\<rparr>"

fun step :: "schema_graph \<Rightarrow> string \<Rightarrow> gauntlet_state \<Rightarrow> gauntlet_state" where
  "step g sql Syntactic =
     (case syntactic_validator sql of
        (r1, Some ast) \<Rightarrow> if valid r1 then Semantic r1 ast else stopped (Ran r1) Skipped
      | (r1, None) \<Rightarrow> stopped (Ran r1) Skipped)"
| "step g sql (Semantic r1 ast) =
     (let r2 = semantic_validator g ast
      in if valid r2 then TrcSafety r1 r2 ast else stopped (Ran r1) (Ran r2))"
| "step g sql (TrcSafety r1 r2 ast) =
     (case logical_validator g ast of
        (r3, t) \<Rightarrow>
          Done \<lparr>syntactic_outcome = Ran r1, semantic_outcome = Ran r2, logical_outcome = Ran r3,
                trc_outcome = t, passed = valid r3\<rparr>)"
| "step g sql (Done r) = Done r"

fun remaining :: "gauntlet_state \<Rightarrow> nat" where
  "remaining Syntactic = 3"
| "remaining (Semantic r1 ast) = 2"
| "remaining (TrcSafety r1 r2 ast) = 1"
| "remaining (Done r) = 0"

function run :: "schema_graph \<Rightarrow> string \<Rightarrow> gauntlet_state \<Rightarrow> pipeline_outcome" where
  "run g sql (Done r) = r"
| "run g sql Syntactic = run g sql (step g sql Syntactic)"
| "run g sql (Semantic r1 ast) = run g sql (step g sql (Semantic r1 ast))"
| "run g sql (TrcSafety r1 r2 ast) = run g sql (step g sql (TrcSafety r1 r2 ast))"
  by pat_completeness auto
termination
  by (relation "measure (\<lambda>(g, sql, s). remaining s)")
     (auto simp: stopped_def Let_def split: prod.splits option.splits)

text \<open>
  Modelled from the spec: the report handed to the caller (section 6), in which a
  skipped stage is not valid and says so.
\<close>

definition skipped_result :: stage_result where
  "skipped_result = \<lparr>valid = False, errors = [''skipped'']\<rparr>"

fun result_of :: "stage_outcome \<Rightarrow> stage_result" where
  "result_of (Ran r) = r"
| "result_of Skipped = skipped_result"

definition report_of :: "pipeline_outcome \<Rightarrow> gauntlet_report" where
  "report_of out =
     \<lparr>overall_valid = passed out,
      syntactic = result_of (syntactic_outcome out),
      semantic = result_of (semantic_outcome out),
      logical = result_of (logical_outcome out),
      trc = trc_outcome out\<rparr>"

definition gauntlet :: "schema_graph \<Rightarrow> string \<Rightarrow> gauntlet_report" where
  "gauntlet g sql = report_of (run g sql Syntactic)"

subsection \<open>What the properties below speak of\<close>







text \<open>The results of the stages that were executed, in order.\<close>

definition executed :: "pipeline_outcome \<Rightarrow> stage_result list" where
  "executed out =
     concat (map (\<lambda>s. case s of Ran r \<Rightarrow> [r] | Skipped \<Rightarrow> [])
       [syntactic_outcome out, semantic_outcome out, logical_outcome out])"

text \<open>
  The schema of the spec's scenarios: \<open>employees(emp_id PK, name, age, department_id FK
  to departments.dept_id)\<close> and \<open>departments(dept_id PK, dept_name)\<close>; and the formulas of
  scenarios 4 and 5.
\<close>

definition company_schema :: schema_graph where
  "company_schema =
     [\<lparr>tbl_name = ''employees'',
       tbl_columns =
         [\<lparr>col_name = ''emp_id'', col_type = INTEGER, nullable = False\<rparr>,
          \<lparr>col_name = ''name'', col_type = VARCHAR, nullable = False\<rparr>,
          \<lparr>col_name = ''age'', col_type = INTEGER, nullable = True\<rparr>,
          \<lparr>col_name = ''department_id'', col_type = INTEGER, nullable = True\<rparr>],
       primaryKey = [''emp_id''],
       foreignKeys = [\<lparr>fk_column = ''department_id'', referencedTable = ''departments'',
                       referencedColumn = ''dept_id''\<rparr>]\<rparr>,
      \<lparr>tbl_name = ''departments'',
       tbl_columns =
         [\<lparr>col_name = ''dept_id'', col_type = INTEGER, nullable = False\<rparr>,
          \<lparr>col_name = ''dept_name'', col_type = VARCHAR, nullable = False\<rparr>],
       primaryKey = [''dept_id''],
       foreignKeys = []\<rparr>]"





section \<open>Properties of the frontend\<close>

lemma bind_js_simps [simp]:
  "bind_js (Inr v) f = f v" "bind_js (Inl e) f = Inl e"
  by (simp_all add: bind_js_def)

lemma js_opt_get_obj [simp]: "js_opt_get (JObj kvs) k = Inr (obj_field kvs k)"
  by (simp add: js_opt_get_def)

lemma dropWhile_all_left: "(\<forall>x\<in>set (dropWhile P xs). P x) \<longleftrightarrow> (\<forall>x\<in>set xs. P x)"
proof
  assume a: "\<forall>x\<in>set (dropWhile P xs). P x"
  have "dropWhile P xs = []"
  proof (rule ccontr)
    assume ne: "dropWhile P xs \<noteq> []"
    then have "\<not> P (hd (dropWhile P xs))" by (rule hd_dropWhile)
    moreover have "hd (dropWhile P xs) \<in> set (dropWhile P xs)" using ne by simp
    ultimately show False using a by blast
  qed
  then show "\<forall>x\<in>set xs. P x" by (metis dropWhile_eq_Nil_conv)
next
  assume "\<forall>x\<in>set xs. P x"
  then show "\<forall>x\<in>set (dropWhile P xs). P x" by (blast dest: set_dropWhileD)
qed

lemma js_trim_empty_iff: "js_trim s = [] \<longleftrightarrow> list_all js_space s"
  by (simp add: js_trim_def list_all_iff dropWhile_eq_Nil_conv dropWhile_all_left)

lemma generate_try_no_db:
  "\<not> js_truthy (databaseId s) \<Longrightarrow>
     generate_try net s = ([Alert ''No Database ID found. Please upload a schema first.''], Inr ())"
  by (simp add: generate_try_def)



text \<open>
  Claim C8. Whenever the HTTP POST behind \<open>apiService.submitSchema\<close> or
  \<open>apiService.generateSQL\<close> succeeds, the function returns the response's \<open>data\<close>
  unchanged; whenever it fails, the function throws an \<open>Error\<close> whose message begins with
  \<open>Failed to submit schema: \<close> or \<open>Failed to generate SQL: \<close> respectively, so no failure
  comes back as a normal value.
\<close>

theorem apiService_returns_data_or_throws:
  "(post ''/submit-schema'' d = Fulfilled r \<longrightarrow> submitSchema post d = Inr (data r)) \<and>
   (post ''/submit-schema'' d = Rejected e \<longrightarrow>
      (\<exists>m. submitSchema post d = Inl (ErrorObj m) \<and> prefix ''Failed to submit schema: '' m)) \<and>
   (post ''/generate-sql'' d = Fulfilled r \<longrightarrow> generateSQL post d = Inr (data r)) \<and>
   (post ''/generate-sql'' d = Rejected e \<longrightarrow>
      (\<exists>m. generateSQL post d = Inl (ErrorObj m) \<and> prefix ''Failed to generate SQL: '' m))"
  by (simp add: submitSchema_def generateSQL_def)

text \<open>The same at a server that answers and at one that is down.\<close>

theorem apiService_returns_data_or_throws_witness:
  "submitSchema post_up (JStr ''x'') = Inr (JObj [(''echo'', JStr ''x'')]) \<and>
   generateSQL post_up (JStr ''x'') = Inr (JObj [(''echo'', JStr ''x'')]) \<and>
   (\<exists>m. submitSchema post_down (JStr ''x'') = Inl (ErrorObj m) \<and>
        prefix ''Failed to submit schema: '' m) \<and>
   (\<exists>m. generateSQL post_down (JStr ''x'') = Inl (ErrorObj m) \<and>
        prefix ''Failed to generate SQL: '' m)"
  using apiService_returns_data_or_throws
          [of post_up "JStr ''x''" "\<lparr>data = JObj [(''echo'', JStr ''x'')], status = 200\<rparr>"]
        apiService_returns_data_or_throws
          [of post_down "JStr ''x''" _ "\<lparr>message = JStr ''Network Error''\<rparr>"]
  by (simp add: post_up_def post_down_def)

text \<open>
  Claim C9. When the navigation state carries no response (the state is missing, or its
  \<open>response\<close> is missing, \<open>null\<close> or otherwise falsy), a render of \<open>OutputDisplay\<close> returns
  the "No Query Results Found" view, whatever the active tab; it does not throw, which
  reading a field of the missing response would, and the formatter is not called. This
  holds for the current component and for its earlier revision.
\<close>

theorem OutputDisplay_without_response:
  assumes "js_opt_get loc_state ''response'' = Inr r"
      and "\<not> js_truthy r"
      and "js_opt_get loc_state ''database_id'' = Inr dbid"
  shows "OutputDisplay format loc_state tab =
           Inr (NoQueryResultsFound (Some (JObj [(''state'', JObj [(''database_id'', dbid)])]))) \<and>
         OutputDisplay_part_005 loc_state tab = Inr (NoQueryResultsFound None)"
  using assms by (simp add: OutputDisplay_def OutputDisplay_part_005_def)

text \<open>The page opened directly: \<open>location.state\<close> is \<open>null\<close>, and the formatter would throw.\<close>

theorem OutputDisplay_without_response_witness:
  "OutputDisplay (\<lambda>sq. Inl (ErrorObj ''Parse error'')) JNull ''validation'' =
     Inr (NoQueryResultsFound (Some (JObj [(''state'', JObj [(''database_id'', JUndefined)])]))) \<and>
   OutputDisplay_part_005 JNull ''validation'' = Inr (NoQueryResultsFound None)"
  using OutputDisplay_without_response
          [of JNull JUndefined JUndefined "\<lambda>sq. Inl (ErrorObj ''Parse error'')" "''validation''"]
  by (simp add: js_opt_get_def)

text \<open>
  Claim C10. If the query is empty or consists of white space only (any of the white
  space and line terminator characters that \<open>trim\<close> strips, Unicode ones included), or no
  database id is set, \<open>handleGenerateSQL\<close> issues no HTTP request and does not navigate; a blank query
  leaves the state untouched with no effect at all. Every invocation with a query that
  is not blank begins with \<open>setIsGenerating(true)\<close>, ends with \<open>setIsGenerating(false)\<close>
  and leaves \<open>isGenerating\<close> false, whatever \<open>fetch\<close> and \<open>response.json()\<close> do.
\<close>

theorem handleGenerateSQL_guard_and_reset:
  "(list_all js_space (query s) \<or> \<not> js_truthy (databaseId s) \<longrightarrow>
      \<not> list_ex is_request (snd (handleGenerateSQL net s)) \<and>
      \<not> list_ex is_navigation (snd (handleGenerateSQL net s))) \<and>
   (list_all js_space (query s) \<longrightarrow> handleGenerateSQL net s = (s, [])) \<and>
   (\<not> list_all js_space (query s) \<longrightarrow>
      hd (snd (handleGenerateSQL net s)) = SetIsGenerating True \<and>
      last (snd (handleGenerateSQL net s)) = SetIsGenerating False \<and>
      isGenerating (fst (handleGenerateSQL net s)) = False)"
proof (intro conjI impI)
  assume g: "list_all js_space (query s) \<or> \<not> js_truthy (databaseId s)"
  show "\<not> list_ex is_request (snd (handleGenerateSQL net s))"
    using g by (auto simp: handleGenerateSQL_def js_trim_empty_iff generate_try_no_db
        split: prod.splits sum.splits)
  show "\<not> list_ex is_navigation (snd (handleGenerateSQL net s))"
    using g by (auto simp: handleGenerateSQL_def js_trim_empty_iff generate_try_no_db
        split: prod.splits sum.splits)
next
  assume "list_all js_space (query s)"
  then show "handleGenerateSQL net s = (s, [])"
    by (simp add: handleGenerateSQL_def js_trim_empty_iff)
next
  assume n: "\<not> list_all js_space (query s)"
  show "hd (snd (handleGenerateSQL net s)) = SetIsGenerating True"
    using n by (simp add: handleGenerateSQL_def js_trim_empty_iff split: prod.splits)
  show "last (snd (handleGenerateSQL net s)) = SetIsGenerating False"
    using n by (simp add: handleGenerateSQL_def js_trim_empty_iff split: prod.splits)
  show "isGenerating (fst (handleGenerateSQL net s)) = False"
    using n by (simp add: handleGenerateSQL_def js_trim_empty_iff split: prod.splits)
qed

text \<open>
  A query of a space, an em space (U+2003) and a line feed; a query with no database
  id; a query whose request is rejected; and a query whose request succeeds.
\<close>

theorem handleGenerateSQL_guard_and_reset_witness:
  "handleGenerateSQL fetch_up
     \<lparr>query = [0x20, 0x2003, 0x0A], isGenerating = False, databaseId = JStr ''db1''\<rparr>
     = (\<lparr>query = [0x20, 0x2003, 0x0A], isGenerating = False, databaseId = JStr ''db1''\<rparr>, []) \<and>
   \<not> list_ex is_request
       (snd (handleGenerateSQL fetch_up
          \<lparr>query = ascii ''all users'', isGenerating = False, databaseId = JNull\<rparr>)) \<and>
   \<not> list_ex is_navigation
       (snd (handleGenerateSQL fetch_up
          \<lparr>query = ascii ''all users'', isGenerating = False, databaseId = JNull\<rparr>)) \<and>
   isGenerating
       (fst (handleGenerateSQL fetch_down
          \<lparr>query = ascii ''all users'', isGenerating = False, databaseId = JStr ''db1''\<rparr>))
     = False \<and>
   last (snd (handleGenerateSQL fetch_up
          \<lparr>query = ascii ''all users'', isGenerating = False, databaseId = JStr ''db1''\<rparr>))
     = SetIsGenerating False"
  using handleGenerateSQL_guard_and_reset
          [of "\<lparr>query = [0x20, 0x2003, 0x0A], isGenerating = False, databaseId = JStr ''db1''\<rparr>"
              fetch_up]
        handleGenerateSQL_guard_and_reset
          [of "\<lparr>query = ascii ''all users'', isGenerating = False, databaseId = JNull\<rparr>" fetch_up]
        handleGenerateSQL_guard_and_reset
          [of "\<lparr>query = ascii ''all users'', isGenerating = False, databaseId = JStr ''db1''\<rparr>"
              fetch_down]
        handleGenerateSQL_guard_and_reset
          [of "\<lparr>query = ascii ''all users'', isGenerating = False, databaseId = JStr ''db1''\<rparr>"
              fetch_up]
  by (simp add: js_space_def ascii_def)





section \<open>Properties of the Validation Gauntlet\<close>





text \<open>The run from the start state, with its at most three steps written out.\<close>

lemma run_from_start:
  "run g sql Syntactic =
     (case syntactic_validator sql of
        (r1, None) \<Rightarrow>
          \<lparr>syntactic_outcome = Ran r1, semantic_outcome = Skipped, logical_outcome = Skipped,
           trc_outcome = None, passed = False\<rparr>
      | (r1, Some ast) \<Rightarrow>
          if \<not> valid r1 then
            \<lparr>syntactic_outcome = Ran r1, semantic_outcome = Skipped, logical_outcome = Skipped,
             trc_outcome = None, passed = False\<rparr>
          else if \<not> valid (semantic_validator g ast) then
            \<lparr>syntactic_outcome = Ran r1, semantic_outcome = Ran (semantic_validator g ast),
             logical_outcome = Skipped, trc_outcome = None, passed = False\<rparr>
          else
            \<lparr>syntactic_outcome = Ran r1, semantic_outcome = Ran (semantic_validator g ast),
             logical_outcome = Ran (fst (logical_validator g ast)),
             trc_outcome = snd (logical_validator g ast),
             passed = valid (fst (logical_validator g ast))\<rparr>)"
  by (simp add: stopped_def Let_def split: prod.splits option.splits)

lemma syntactic_validator_no_ast:
  "syntactic_validator sql = (r, None) \<Longrightarrow> \<not> valid r"
  by (auto simp: syntactic_validator_def split: sum.splits statement.splits if_splits)

lemma write_kind_not_select: "write_kind_of w = Some k \<Longrightarrow> w \<noteq> ''SELECT''"
  by (auto simp: write_kind_of_def split: if_splits)

lemma gauntlet_write:
  assumes "parse sql = Inr (Write k)"
  shows "gauntlet g sql =
           \<lparr>overall_valid = False,
            syntactic = \<lparr>valid = True, errors = []\<rparr>,
            semantic = \<lparr>valid = True, errors = []\<rparr>,
            logical = \<lparr>valid = False, errors = [''WriteOperationForbidden'']\<rparr>,
            trc = None\<rparr>"
  using assms unfolding gauntlet_def report_of_def run_from_start
  by (simp add: syntactic_validator_def semantic_validator_def semantic_errors_def
      logical_validator_def safety_checker_def translate_def)

text \<open>
  Claim C2. For every SQL text and schema, if the syntactic stage of the Gauntlet
  reports \<open>valid = false\<close> then the semantic and the logical stage are both skipped, and
  are reported as skipped and not valid; and \<open>overall_valid\<close> is the conjunction of the
  \<open>valid\<close> flags of the stages that were executed, and of no others.
\<close>

theorem gauntlet_stage_ordering:
  "(\<not> valid (syntactic (gauntlet g sql)) \<longrightarrow>
      semantic_outcome (run g sql Syntactic) = Skipped \<and>
      logical_outcome (run g sql Syntactic) = Skipped \<and>
      semantic (gauntlet g sql) = skipped_result \<and>
      logical (gauntlet g sql) = skipped_result \<and>
      \<not> valid (semantic (gauntlet g sql)) \<and>
      \<not> valid (logical (gauntlet g sql))) \<and>
   overall_valid (gauntlet g sql) = list_all valid (executed (run g sql Syntactic))"
  unfolding gauntlet_def report_of_def run_from_start
  by (auto simp: executed_def skipped_result_def dest: syntactic_validator_no_ast
      split: prod.splits option.splits)

text \<open>A statement that does not parse: both later stages are skipped.\<close>

theorem gauntlet_stage_ordering_witness:
  "semantic (gauntlet company_schema ''SELEC name'') = skipped_result \<and>
   logical (gauntlet company_schema ''SELEC name'') = skipped_result \<and>
   \<not> overall_valid (gauntlet company_schema ''SELEC name'')"
proof -
  have p: "parse ''SELEC name'' = Inl (SyntaxError 0 ''SELECT'' ''SELEC'')"
    by code_simp
  then have "\<not> valid (syntactic (gauntlet company_schema ''SELEC name''))"
    unfolding gauntlet_def report_of_def run_from_start
    by (simp add: syntactic_validator_def)
  moreover have "\<not> list_all valid (executed (run company_schema ''SELEC name'' Syntactic))"
    using p unfolding run_from_start by (simp add: syntactic_validator_def executed_def)
  ultimately show ?thesis
    using gauntlet_stage_ordering [of company_schema "''SELEC name''"] by simp
qed



text \<open>
  Claim C4. A statement whose top-level keyword is \<open>INSERT\<close>, \<open>UPDATE\<close>, \<open>DELETE\<close>, \<open>DROP\<close>,
  \<open>ALTER\<close> or \<open>TRUNCATE\<close> is never rejected by the parser: it parses into \<open>Write\<close>. For
  every statement that parses into \<open>Write\<close>, stage 1 and stage 2 pass, the Safety Checker
  reports \<open>WriteOperationForbidden\<close>, and stage 3 fails with it, so the Gauntlet rejects
  the statement at stage 3 and produces no TRC. In particular this is the report for
  \<open>DROP TABLE employees\<close> against the schema with \<open>employees\<close>.
\<close>

theorem write_rejected_at_stage_three:
  "(tokenize sql = (p, TWord w) # rest \<and> write_kind_of (upper w) = Some k \<longrightarrow>
      parse sql = Inr (Write k)) \<and>
   (parse sql = Inr (Write k) \<longrightarrow>
      safety_checker (Write k) (translate g (Write k)) = [WriteOperationForbidden] \<and>
      gauntlet g sql =
        \<lparr>overall_valid = False,
         syntactic = \<lparr>valid = True, errors = []\<rparr>,
         semantic = \<lparr>valid = True, errors = []\<rparr>,
         logical = \<lparr>valid = False, errors = [''WriteOperationForbidden'']\<rparr>,
         trc = None\<rparr>) \<and>
   gauntlet company_schema ''DROP TABLE employees'' =
     \<lparr>overall_valid = False,
      syntactic = \<lparr>valid = True, errors = []\<rparr>,
      semantic = \<lparr>valid = True, errors = []\<rparr>,
      logical = \<lparr>valid = False, errors = [''WriteOperationForbidden'']\<rparr>,
      trc = None\<rparr>"
proof (intro conjI impI)
  assume "tokenize sql = (p, TWord w) # rest \<and> write_kind_of (upper w) = Some k"
  then show "parse sql = Inr (Write k)"
    by (auto simp: parse_def dest: write_kind_not_select)
next
  assume "parse sql = Inr (Write k)"
  then show "gauntlet g sql =
        \<lparr>overall_valid = False,
         syntactic = \<lparr>valid = True, errors = []\<rparr>,
         semantic = \<lparr>valid = True, errors = []\<rparr>,
         logical = \<lparr>valid = False, errors = [''WriteOperationForbidden'']\<rparr>,
         trc = None\<rparr>"
    by (rule gauntlet_write)
next
  show "safety_checker (Write k) (translate g (Write k)) = [WriteOperationForbidden]"
    by (simp add: safety_checker_def)
next
  have "parse ''DROP TABLE employees'' = Inr (Write DROP)"
    by code_simp
  then show "gauntlet company_schema ''DROP TABLE employees'' =
     \<lparr>overall_valid = False,
      syntactic = \<lparr>valid = True, errors = []\<rparr>,
      semantic = \<lparr>valid = True, errors = []\<rparr>,
      logical = \<lparr>valid = False, errors = [''WriteOperationForbidden'']\<rparr>,
      trc = None\<rparr>"
    by (rule gauntlet_write)
qed

text \<open>A \<open>DELETE\<close> in lower case, against a schema with no table at all.\<close>

theorem write_rejected_at_stage_three_witness:
  "parse ''delete from employees'' = Inr (Write DELETE) \<and>
   gauntlet [] ''delete from employees'' =
     \<lparr>overall_valid = False,
      syntactic = \<lparr>valid = True, errors = []\<rparr>,
      semantic = \<lparr>valid = True, errors = []\<rparr>,
      logical = \<lparr>valid = False, errors = [''WriteOperationForbidden'']\<rparr>,
      trc = None\<rparr>"
proof -
  have t: "tokenize ''delete from employees'' =
             (0, TWord ''delete'') # [(7, TWord ''from''), (12, TWord ''employees''), (21, TEnd)]"
    by code_simp
  have k: "write_kind_of (upper ''delete'') = Some DELETE"
    by code_simp
  from t k show ?thesis
    using write_rejected_at_stage_three
            [of "''delete from employees''" 0 "''delete''"
                "[(7, TWord ''from''), (12, TWord ''employees''), (21, TEnd)]" DELETE "[]"]
    by simp
qed

text \<open>
  The other scenarios of the spec, run through the model: a query that passes all
  three stages, with its TRC; a misspelt table, which fails stage 2 and skips stage 3;
  and a join, whose projections come from both variables.
\<close>

lemma scenario_older_than_30:
  "gauntlet company_schema ''SELECT name FROM employees WHERE age > 30'' =
     \<lparr>overall_valid = True,
      syntactic = \<lparr>valid = True, errors = []\<rparr>,
      semantic = \<lparr>valid = True, errors = []\<rparr>,
      logical = \<lparr>valid = True, errors = []\<rparr>,
      trc = Some \<lparr>formula_text =
                    ''{t0 | t0'' @ sym_in @ ''employees '' @ sym_and @ '' t0.age > 30}'',
                  natural_language =
                    ''the t0.name such that t0 is a row of employees and t0.age > 30''\<rparr>\<rparr>"
  by code_simp

lemma scenario_unknown_table:
  "gauntlet company_schema ''SELECT salary FROM employes WHERE age > 30'' =
     \<lparr>overall_valid = False,
      syntactic = \<lparr>valid = True, errors = []\<rparr>,
      semantic = \<lparr>valid = False,
                  errors = [''UnknownTable{employes}'', ''UnknownColumn{salary}'',
                            ''UnknownColumn{age}'']\<rparr>,
      logical = skipped_result,
      trc = None\<rparr>"
  by code_simp

lemma scenario_join:
  "overall_valid (gauntlet company_schema
     ''SELECT e.name, d.dept_name FROM employees e JOIN departments d ON e.department_id = d.dept_id'')"
  by code_simp


end
